theory Spec2Isabelle
  imports Main "HOL-Library.Word"
begin

unbundle bit_operations_syntax

section \<open>The set-options operation builder of package txnbuild\<close>

text \<open>
  The development embeds the most complete variant of \<^verbatim>\<open>SetOptions.BuildXDR\<close>
  (the one with flag, threshold, home-domain and signer handlers) together with its
  field handlers. The builder mutates its receiver: every handler takes the
  \<^verbatim>\<open>SetOptions\<close> value and returns the updated one. A Go pointer that is either nil
  or points to a value is an \<open>option\<close>; a Go \<^verbatim>\<open>string\<close> is a sequence of bytes, that
  is a HOL \<open>string\<close>, and \<^verbatim>\<open>len\<close> of it is \<open>length\<close>.
\<close>

subsection \<open>Errors and outcomes\<close>

text \<open>
  Values of Go's \<^verbatim>\<open>error\<close> interface as the builder makes them: \<^verbatim>\<open>errors.New(msg)\<close>
  and \<^verbatim>\<open>errors.Wrap(cause, msg)\<close>. The address codec returns values of the same type.
\<close>

datatype error = New string | Wrap error string

text \<open>A call either returns or panics (a nil pointer dereference).\<close>

datatype 'r outcome = Return 'r | Panic

subsection \<open>Data\<close>

type_synonym Uint32 = "32 word"

type_synonym AccountFlag = "32 word"

text \<open>\<^verbatim>\<open>type Threshold *xdr.Uint32\<close>: nil, or a pointer to a value.\<close>

type_synonym Threshold = "Uint32 option"

definition NewThreshold :: "8 word \<Rightarrow> Threshold" where
  "NewThreshold t = (let toXDRType = (ucast t :: Uint32) in Some toXDRType)"

text \<open>\<^verbatim>\<open>xdr.Signer\<close>, the encoded signer pair, over the type \<open>'k\<close> of signer keys.\<close>

record 'k xdr_Signer =
  Key :: 'k
  Weight :: Uint32

text \<open>
  \<^verbatim>\<open>xdr.SetOptionsOp\<close>, the record that is assembled: one pointer slot per field.
  \<open>'a\<close> is the type of binary account ids. The inflation slot of the source points
  to the builder's own \<^verbatim>\<open>destAccountID\<close> field; the only write to that field is
  the one directly before the slot is set, so the slot is modelled by the value it
  points to at that moment.
\<close>

record ('a, 'k) SetOptionsOp =
  InflationDest :: "'a option"
  ClearFlags :: "Uint32 option"
  SetFlags :: "Uint32 option"
  MasterWeight :: "Uint32 option"
  LowThreshold :: "Uint32 option"
  MedThreshold :: "Uint32 option"
  HighThreshold :: "Uint32 option"
  HomeDomain :: "string option"
  Signer :: "'k xdr_Signer option"

text \<open>The zero value of \<^verbatim>\<open>xdr.SetOptionsOp\<close>: every slot nil.\<close>

definition SetOptionsOp_zero :: "('a, 'k) SetOptionsOp" where
  "SetOptionsOp_zero =
     \<lparr>InflationDest = None, ClearFlags = None, SetFlags = None, MasterWeight = None,
      LowThreshold = None, MedThreshold = None, HighThreshold = None,
      HomeDomain = None, Signer = None\<rparr>"

text \<open>\<^verbatim>\<open>type Signer struct { Address string; Weight Threshold }\<close> of txnbuild.\<close>

record Signer =
  Address :: string
  Weight :: Threshold

text \<open>\<^verbatim>\<open>Signer{}\<close>, the zero value the signer handler compares with.\<close>

definition Signer_zero :: Signer where
  "Signer_zero = \<lparr>Address = [], Weight = None\<rparr>"

record ('a, 'k) SetOptions =
  destAccountID :: 'a
  InflationDestination :: string
  SetAuthorization :: "AccountFlag list"
  ClearAuthorization :: "AccountFlag list"
  MasterWeight :: Threshold
  LowThreshold :: Threshold
  MediumThreshold :: Threshold
  HighThreshold :: Threshold
  HomeDomain :: string
  Signer :: Signer
  xdrOp :: "('a, 'k) SetOptionsOp"

text \<open>
  \<^verbatim>\<open>xdr.Operation\<close>: both literals of the source, \<^verbatim>\<open>xdr.Operation{}\<close> and
  \<^verbatim>\<open>xdr.Operation{Body: body}\<close>, leave every field but \<^verbatim>\<open>Body\<close> at its zero
  value, so the body is the only field kept. \<open>'b\<close> is the type of operation bodies.
\<close>

datatype 'b Operation = Operation (Body: 'b)

text \<open>The operation kind the builder passes to the envelope constructor.\<close>

datatype OperationType = OperationTypeSetOptions

text \<open>
  Package xdr is not among the sources. What the builder uses of it is taken as a
  parameter: \<^verbatim>\<open>AccountId.SetAddress\<close> and \<^verbatim>\<open>SignerKey.SetAddress\<close> (the address
  codec: the error, with the receiver left as it was, or the value the receiver is set
  to), \<^verbatim>\<open>NewOperationBody\<close> (the envelope constructor) and the zero value of
  \<^verbatim>\<open>xdr.OperationBody\<close>.
\<close>

record ('a, 'k, 'b) xdr =
  AccountId_SetAddress :: "string \<Rightarrow> error + 'a"
  SignerKey_SetAddress :: "string \<Rightarrow> error + 'k"
  NewOperationBody :: "OperationType \<Rightarrow> ('a, 'k) SetOptionsOp \<Rightarrow> error + 'b"
  OperationBody_zero :: 'b

text \<open>\<^verbatim>\<open>xdr.Operation{}\<close>\<close>

definition Operation_zero :: "('a, 'k, 'b) xdr \<Rightarrow> 'b Operation" where
  "Operation_zero x = Operation (OperationBody_zero x)"

subsection \<open>Field handlers\<close>

definition handleInflation ::
  "('a, 'k, 'b) xdr \<Rightarrow> ('a, 'k) SetOptions \<Rightarrow> error option \<times> ('a, 'k) SetOptions" where
  "handleInflation x so =
     (if InflationDestination so \<noteq> [] then
        (case AccountId_SetAddress x (InflationDestination so) of
           Inl err \<Rightarrow> (Some err, so)
         | Inr aid \<Rightarrow>
             (None, so\<lparr>destAccountID := aid,
                       xdrOp := (xdrOp so)\<lparr>InflationDest := Some aid\<rparr>\<rparr>))
      else (None, so))"

definition handleSetFlags :: "('a, 'k) SetOptions \<Rightarrow> ('a, 'k) SetOptions" where
  "handleSetFlags so =
     (let flags = foldl (\<lambda>flags flag. flags OR flag) (0 :: Uint32) (SetAuthorization so)
      in if length (SetAuthorization so) > 0
         then so\<lparr>xdrOp := (xdrOp so)\<lparr>SetFlags := Some flags\<rparr>\<rparr>
         else so)"

definition handleClearFlags :: "('a, 'k) SetOptions \<Rightarrow> ('a, 'k) SetOptions" where
  "handleClearFlags so =
     (let flags = foldl (\<lambda>flags flag. flags OR flag) (0 :: Uint32) (ClearAuthorization so)
      in if length (ClearAuthorization so) > 0
         then so\<lparr>xdrOp := (xdrOp so)\<lparr>ClearFlags := Some flags\<rparr>\<rparr>
         else so)"

definition handleMasterWeight :: "('a, 'k) SetOptions \<Rightarrow> ('a, 'k) SetOptions" where
  "handleMasterWeight so =
     (if MasterWeight so \<noteq> None
      then so\<lparr>xdrOp := (xdrOp so)\<lparr>SetOptionsOp.MasterWeight := MasterWeight so\<rparr>\<rparr>
      else so)"

definition handleLowThreshold :: "('a, 'k) SetOptions \<Rightarrow> ('a, 'k) SetOptions" where
  "handleLowThreshold so =
     (if LowThreshold so \<noteq> None
      then so\<lparr>xdrOp := (xdrOp so)\<lparr>SetOptionsOp.LowThreshold := LowThreshold so\<rparr>\<rparr>
      else so)"

definition handleMediumThreshold :: "('a, 'k) SetOptions \<Rightarrow> ('a, 'k) SetOptions" where
  "handleMediumThreshold so =
     (if MediumThreshold so \<noteq> None
      then so\<lparr>xdrOp := (xdrOp so)\<lparr>MedThreshold := MediumThreshold so\<rparr>\<rparr>
      else so)"

definition handleHighThreshold :: "('a, 'k) SetOptions \<Rightarrow> ('a, 'k) SetOptions" where
  "handleHighThreshold so =
     (if HighThreshold so \<noteq> None
      then so\<lparr>xdrOp := (xdrOp so)\<lparr>SetOptionsOp.HighThreshold := HighThreshold so\<rparr>\<rparr>
      else so)"

definition handleHomeDomain ::
  "('a, 'k) SetOptions \<Rightarrow> error option \<times> ('a, 'k) SetOptions" where
  "handleHomeDomain so =
     (if HomeDomain so \<noteq> [] then
        (if length (HomeDomain so) > 32
         then (Some (New ''HomeDomain must be 32 characters or less''), so)
         else (let xdrHomeDomain = HomeDomain so
               in (None, so\<lparr>xdrOp := (xdrOp so)\<lparr>SetOptionsOp.HomeDomain := Some xdrHomeDomain\<rparr>\<rparr>)))
      else (None, so))"

text \<open>
  The signer handler reads \<^verbatim>\<open>*so.Signer.Weight\<close> before anything else inside the
  guard: on a nil weight the call panics.
\<close>

definition handleSigner ::
  "('a, 'k, 'b) xdr \<Rightarrow> ('a, 'k) SetOptions \<Rightarrow> error option outcome \<times> ('a, 'k) SetOptions" where
  "handleSigner x so =
     (if Signer so \<noteq> Signer_zero then
        (case Weight (Signer so) of
           None \<Rightarrow> (Panic, so)
         | Some w \<Rightarrow>
             (case SignerKey_SetAddress x (Address (Signer so)) of
                Inl err \<Rightarrow> (Return (Some err), so)
              | Inr k \<Rightarrow>
                  (Return None,
                   so\<lparr>xdrOp := (xdrOp so)\<lparr>SetOptionsOp.Signer :=
                                              Some \<lparr>Key = k, xdr_Signer.Weight = w\<rparr>\<rparr>\<rparr>)))
      else (Return None, so))"

subsection \<open>The builder\<close>

text \<open>
  \<^verbatim>\<open>BuildXDR\<close> returns the pair of the source (operation, error; \<open>None\<close> is the nil
  error) or panics, and the receiver as the call leaves it.
\<close>

definition BuildXDR ::
  "('a, 'k, 'b) xdr \<Rightarrow> ('a, 'k) SetOptions \<Rightarrow>
     ('b Operation \<times> error option) outcome \<times> ('a, 'k) SetOptions" where
  "BuildXDR x so =
     (case handleInflation x so of
        (Some err, so1) \<Rightarrow>
          (Return (Operation_zero x,
                   Some (Wrap err ''Failed to set inflation destination address'')), so1)
      | (None, so1) \<Rightarrow>
          (let so2 = handleClearFlags so1;
               so3 = handleSetFlags so2;
               so4 = handleMasterWeight so3;
               so5 = handleLowThreshold so4;
               so6 = handleMediumThreshold so5;
               so7 = handleHighThreshold so6
           in case handleHomeDomain so7 of
                (Some err, so8) \<Rightarrow>
                  (Return (Operation_zero x, Some (Wrap err ''Failed to set home domain'')), so8)
              | (None, so8) \<Rightarrow>
                  (case handleSigner x so8 of
                     (Panic, so9) \<Rightarrow> (Panic, so9)
                   | (Return (Some err), so9) \<Rightarrow>
                       (Return (Operation_zero x, Some (Wrap err ''Failed to set signer'')), so9)
                   | (Return None, so9) \<Rightarrow>
                       (let opType = OperationTypeSetOptions
                        in case NewOperationBody x opType (xdrOp so9) of
                             Inl err \<Rightarrow>
                               (Return (Operation_zero x,
                                        Some (Wrap err ''Failed to build XDR OperationBody'')), so9)
                           | Inr body \<Rightarrow> (Return (Operation body, None), so9)))))"

subsection \<open>Concrete instances\<close>

text \<open>\<^verbatim>\<open>SetOptions{}\<close>, the request every test of the source starts from, over
  textual keys (the zero key is the empty text).\<close>

definition SetOptions_zero :: "(string, string) SetOptions" where
  "SetOptions_zero =
     \<lparr>destAccountID = [], InflationDestination = [], SetAuthorization = [],
      ClearAuthorization = [], MasterWeight = None, LowThreshold = None,
      MediumThreshold = None, HighThreshold = None, HomeDomain = [],
      Signer = Signer_zero, xdrOp = SetOptionsOp_zero\<rparr>"

text \<open>
  Modelled from the spec: package xdr (the address codec and the envelope constructor)
  is not among the sources. For the concrete instances the parameter is instantiated
  after the interface the specification gives. "AddressCodec.Resolve(text) must accept
  the ledger's canonical textual address encoding; any other input yields AddressError":
  the instance accepts the texts of 56 bytes, the size of a canonical address, and keeps
  the text as the key. "OperationEnvelope.Wrap(kind, payload)" wraps the payload: the
  body holds it. Every instance below that needs a rejected address uses the empty text
  or a text of another size.
\<close>

definition xdr_model :: "(string, string, (string, string) SetOptionsOp option) xdr" where
  "xdr_model =
     \<lparr>AccountId_SetAddress =
        (\<lambda>address. if length address = 56 then Inr address
                   else Inl (New ''invalid address'')),
      SignerKey_SetAddress =
        (\<lambda>address. if length address = 56 then Inr address
                   else Inl (New ''invalid address'')),
      NewOperationBody = (\<lambda>aType value. Inr (Some value)),
      OperationBody_zero = None\<rparr>"

text \<open>
  A request with fields of every kind: an inflation destination and a signer of
  canonical size, set flags, a master weight of 0 made by \<^verbatim>\<open>NewThreshold\<close>, a high
  threshold beyond the range of a weight, a home domain; the other fields unset.
\<close>

definition example_request :: "(string, string) SetOptions" where
  "example_request =
     SetOptions_zero
       \<lparr>InflationDestination := ''GDQNY3PBOJOKYZSRMK2S7LHHGWZIUISD4QORETLMXEWXBI7KFZZMKTL3'',
        SetAuthorization := [1, 2],
        MasterWeight := NewThreshold 0,
        HighThreshold := Some 1000,
        HomeDomain := ''example.com'',
        Signer := \<lparr>Address = ''GCEZWKCA5VLDNRLN3RPRJMRZOX3Z6G5CHCGSNFHEYVXM3XOJMDS674JZ'',
                    Weight = NewThreshold 1\<rparr>\<rparr>"

text \<open>The record \<^verbatim>\<open>BuildXDR\<close> assembles for it.\<close>

definition example_record :: "(string, string) SetOptionsOp" where
  "example_record =
     SetOptionsOp_zero
       \<lparr>InflationDest := Some ''GDQNY3PBOJOKYZSRMK2S7LHHGWZIUISD4QORETLMXEWXBI7KFZZMKTL3'',
        SetFlags := Some 3,
        SetOptionsOp.MasterWeight := Some 0,
        SetOptionsOp.HighThreshold := Some 1000,
        SetOptionsOp.HomeDomain := Some ''example.com'',
        SetOptionsOp.Signer :=
          Some \<lparr>Key = ''GCEZWKCA5VLDNRLN3RPRJMRZOX3Z6G5CHCGSNFHEYVXM3XOJMDS674JZ'',
                xdr_Signer.Weight = 1\<rparr>\<rparr>"

section \<open>Properties of the handlers\<close>

subsection \<open>The flag loop\<close>

lemma bit_foldl_OR:
  "bit (foldl (\<lambda>flags flag. flags OR flag) a xs) n \<longleftrightarrow> bit a n \<or> (\<exists>f\<in>set xs. bit f n)"
  for a :: Uint32
  by (induction xs arbitrary: a) (auto simp: bit_or_iff)


subsection \<open>Each handler in closed form\<close>

text \<open>
  Every handler writes at most its own slot; written as one unconditional update, the
  old value of the slot stands where the handler leaves it alone.
\<close>

lemma handleSetFlags_eq:
  "handleSetFlags so =
     so\<lparr>xdrOp := (xdrOp so)\<lparr>SetFlags :=
        (if SetAuthorization so = [] then SetFlags (xdrOp so)
         else Some (foldl (\<lambda>flags flag. flags OR flag) 0 (SetAuthorization so)))\<rparr>\<rparr>"
  by (simp add: handleSetFlags_def)

lemma handleClearFlags_eq:
  "handleClearFlags so =
     so\<lparr>xdrOp := (xdrOp so)\<lparr>ClearFlags :=
        (if ClearAuthorization so = [] then ClearFlags (xdrOp so)
         else Some (foldl (\<lambda>flags flag. flags OR flag) 0 (ClearAuthorization so)))\<rparr>\<rparr>"
  by (simp add: handleClearFlags_def)

lemma handleMasterWeight_eq:
  "handleMasterWeight so =
     so\<lparr>xdrOp := (xdrOp so)\<lparr>SetOptionsOp.MasterWeight :=
        (if MasterWeight so = None then SetOptionsOp.MasterWeight (xdrOp so)
         else MasterWeight so)\<rparr>\<rparr>"
  by (simp add: handleMasterWeight_def)

lemma handleLowThreshold_eq:
  "handleLowThreshold so =
     so\<lparr>xdrOp := (xdrOp so)\<lparr>SetOptionsOp.LowThreshold :=
        (if LowThreshold so = None then SetOptionsOp.LowThreshold (xdrOp so)
         else LowThreshold so)\<rparr>\<rparr>"
  by (simp add: handleLowThreshold_def)

lemma handleMediumThreshold_eq:
  "handleMediumThreshold so =
     so\<lparr>xdrOp := (xdrOp so)\<lparr>MedThreshold :=
        (if MediumThreshold so = None then MedThreshold (xdrOp so)
         else MediumThreshold so)\<rparr>\<rparr>"
  by (simp add: handleMediumThreshold_def)

lemma handleHighThreshold_eq:
  "handleHighThreshold so =
     so\<lparr>xdrOp := (xdrOp so)\<lparr>SetOptionsOp.HighThreshold :=
        (if HighThreshold so = None then SetOptionsOp.HighThreshold (xdrOp so)
         else HighThreshold so)\<rparr>\<rparr>"
  by (simp add: handleHighThreshold_def)

lemmas handlers_eq = handleClearFlags_eq handleSetFlags_eq handleMasterWeight_eq
  handleLowThreshold_eq handleMediumThreshold_eq handleHighThreshold_eq

lemma fst_handleInflation:
  "fst (handleInflation x so) =
     (if InflationDestination so = [] then None
      else case AccountId_SetAddress x (InflationDestination so) of
             Inl err \<Rightarrow> Some err | Inr aid \<Rightarrow> None)"
  by (simp add: handleInflation_def split: sum.splits)

lemma fst_handleHomeDomain:
  "fst (handleHomeDomain so) =
     (if length (HomeDomain so) > 32
      then Some (New ''HomeDomain must be 32 characters or less'') else None)"
  by (auto simp: handleHomeDomain_def)

lemma fst_handleSigner:
  "fst (handleSigner x so) =
     (if Signer so = Signer_zero then Return None
      else case Weight (Signer so) of
             None \<Rightarrow> Panic
           | Some w \<Rightarrow>
               (case SignerKey_SetAddress x (Address (Signer so)) of
                  Inl err \<Rightarrow> Return (Some err) | Inr k \<Rightarrow> Return None))"
  by (simp add: handleSigner_def split: option.splits sum.splits)

lemma snd_handleInflation:
  "snd (handleInflation x so) =
     so\<lparr>destAccountID :=
          (if InflationDestination so = [] then destAccountID so
           else case AccountId_SetAddress x (InflationDestination so) of
                  Inl err \<Rightarrow> destAccountID so | Inr aid \<Rightarrow> aid),
        xdrOp := (xdrOp so)\<lparr>InflationDest :=
          (if InflationDestination so = [] then InflationDest (xdrOp so)
           else case AccountId_SetAddress x (InflationDestination so) of
                  Inl err \<Rightarrow> InflationDest (xdrOp so) | Inr aid \<Rightarrow> Some aid)\<rparr>\<rparr>"
  by (simp add: handleInflation_def split: sum.splits)

lemma snd_handleHomeDomain:
  "snd (handleHomeDomain so) =
     so\<lparr>xdrOp := (xdrOp so)\<lparr>SetOptionsOp.HomeDomain :=
          (if HomeDomain so = [] \<or> length (HomeDomain so) > 32
           then SetOptionsOp.HomeDomain (xdrOp so)
           else Some (HomeDomain so))\<rparr>\<rparr>"
  by (simp add: handleHomeDomain_def)

lemma snd_handleSigner:
  "snd (handleSigner x so) =
     so\<lparr>xdrOp := (xdrOp so)\<lparr>SetOptionsOp.Signer :=
          (if Signer so = Signer_zero then SetOptionsOp.Signer (xdrOp so)
           else case Weight (Signer so) of
                  None \<Rightarrow> SetOptionsOp.Signer (xdrOp so)
                | Some w \<Rightarrow>
                    (case SignerKey_SetAddress x (Address (Signer so)) of
                       Inl err \<Rightarrow> SetOptionsOp.Signer (xdrOp so)
                     | Inr k \<Rightarrow> Some \<lparr>Key = k, xdr_Signer.Weight = w\<rparr>))\<rparr>\<rparr>"
  by (simp add: handleSigner_def split: option.splits sum.splits)

lemmas closed_forms = handlers_eq snd_handleInflation snd_handleHomeDomain snd_handleSigner

subsection \<open>The builder, stage by stage\<close>

lemma BuildXDR_stages:
  "BuildXDR x so =
     (case handleInflation x so of
        (Some err, so1) \<Rightarrow>
          (Return (Operation_zero x,
                   Some (Wrap err ''Failed to set inflation destination address'')), so1)
      | (None, so1) \<Rightarrow>
          (case handleHomeDomain (handleHighThreshold (handleMediumThreshold
                  (handleLowThreshold (handleMasterWeight (handleSetFlags
                     (handleClearFlags so1)))))) of
             (Some err, so8) \<Rightarrow>
               (Return (Operation_zero x, Some (Wrap err ''Failed to set home domain'')), so8)
           | (None, so8) \<Rightarrow>
               (case handleSigner x so8 of
                  (Panic, so9) \<Rightarrow> (Panic, so9)
                | (Return (Some err), so9) \<Rightarrow>
                    (Return (Operation_zero x, Some (Wrap err ''Failed to set signer'')), so9)
                | (Return None, so9) \<Rightarrow>
                    (case NewOperationBody x OperationTypeSetOptions (xdrOp so9) of
                       Inl err \<Rightarrow>
                         (Return (Operation_zero x,
                                  Some (Wrap err ''Failed to build XDR OperationBody'')), so9)
                     | Inr body \<Rightarrow> (Return (Operation body, None), so9)))))"
  unfolding BuildXDR_def Let_def ..

lemma BuildXDR_result:
  shows fst_BuildXDR: "fst (BuildXDR x so) =
     (case fst (handleInflation x so) of
        Some err \<Rightarrow>
          Return (Operation_zero x,
                  Some (Wrap err ''Failed to set inflation destination address''))
      | None \<Rightarrow>
          (case fst (handleHomeDomain so) of
             Some err \<Rightarrow> Return (Operation_zero x, Some (Wrap err ''Failed to set home domain''))
           | None \<Rightarrow>
               (case fst (handleSigner x so) of
                  Panic \<Rightarrow> Panic
                | Return (Some err) \<Rightarrow>
                    Return (Operation_zero x, Some (Wrap err ''Failed to set signer''))
                | Return None \<Rightarrow>
                    (case NewOperationBody x OperationTypeSetOptions
                            (xdrOp (snd (BuildXDR x so))) of
                       Inl err \<Rightarrow>
                         Return (Operation_zero x,
                                 Some (Wrap err ''Failed to build XDR OperationBody''))
                     | Inr body \<Rightarrow> Return (Operation body, None)))))"
    and snd_BuildXDR: "snd (BuildXDR x so) =
     (if fst (handleInflation x so) \<noteq> None then so
      else if fst (handleHomeDomain so) \<noteq> None
        then handleHighThreshold (handleMediumThreshold (handleLowThreshold
               (handleMasterWeight (handleSetFlags (handleClearFlags
                  (snd (handleInflation x so)))))))
        else snd (handleSigner x (snd (handleHomeDomain
               (handleHighThreshold (handleMediumThreshold (handleLowThreshold
                  (handleMasterWeight (handleSetFlags (handleClearFlags
                     (snd (handleInflation x so))))))))))))"
proof -
  obtain e1 so1 where h1: "handleInflation x so = (e1, so1)"
    by (cases "handleInflation x so")
  let ?so7 = "handleHighThreshold (handleMediumThreshold
     (handleLowThreshold (handleMasterWeight (handleSetFlags (handleClearFlags so1)))))"
  obtain e2 so8 where h2: "handleHomeDomain ?so7 = (e2, so8)"
    by (cases "handleHomeDomain ?so7")
  obtain e3 so9 where h3: "handleSigner x so8 = (e3, so9)"
    by (cases "handleSigner x so8")
  have so1: "so1 = snd (handleInflation x so)" and so8: "so8 = snd (handleHomeDomain ?so7)"
    and so9: "so9 = snd (handleSigner x so8)"
    using h1 h2 h3 by simp_all
  have "HomeDomain ?so7 = HomeDomain so"
    unfolding so1 by (simp add: closed_forms)
  then have "fst (handleHomeDomain ?so7) = fst (handleHomeDomain so)"
    by (simp only: fst_handleHomeDomain)
  then have e2: "fst (handleHomeDomain so) = e2"
    using h2 by simp
  have "Signer ?so7 = Signer so"
    unfolding so1 by (simp add: closed_forms)
  then have "Signer so8 = Signer so"
    unfolding so8 by (simp add: closed_forms)
  then have "fst (handleSigner x so8) = fst (handleSigner x so)"
    by (simp only: fst_handleSigner)
  then have e3: "fst (handleSigner x so) = e3"
    using h3 by simp
  have e1: "fst (handleInflation x so) = e1"
    using h1 by simp
  have fail1: "so1 = so" if "e1 \<noteq> None"
    using that h1 by (auto simp: handleInflation_def split: if_splits sum.splits)
  have fail2: "so8 = ?so7" if "e2 \<noteq> None"
    using that h2 by (auto simp: handleHomeDomain_def split: if_splits)
  have B: "BuildXDR x so =
     (case e1 of
        Some err \<Rightarrow>
          (Return (Operation_zero x,
                   Some (Wrap err ''Failed to set inflation destination address'')), so1)
      | None \<Rightarrow>
          (case e2 of
             Some err \<Rightarrow>
               (Return (Operation_zero x, Some (Wrap err ''Failed to set home domain'')), so8)
           | None \<Rightarrow>
               (case e3 of
                  Panic \<Rightarrow> (Panic, so9)
                | Return (Some err) \<Rightarrow>
                    (Return (Operation_zero x, Some (Wrap err ''Failed to set signer'')), so9)
                | Return None \<Rightarrow>
                    (case NewOperationBody x OperationTypeSetOptions (xdrOp so9) of
                       Inl err \<Rightarrow>
                         (Return (Operation_zero x,
                                  Some (Wrap err ''Failed to build XDR OperationBody'')), so9)
                     | Inr body \<Rightarrow> (Return (Operation body, None), so9)))))"
    by (simp add: BuildXDR_stages h1 h2 h3 split: option.splits outcome.splits sum.splits)
  have S: "snd (BuildXDR x so) =
     (if e1 \<noteq> None then so else if e2 \<noteq> None then ?so7 else so9)"
    unfolding B using fail1 fail2
    by (simp split: option.splits outcome.splits sum.splits)
  show "snd (BuildXDR x so) =
     (if fst (handleInflation x so) \<noteq> None then so
      else if fst (handleHomeDomain so) \<noteq> None
        then handleHighThreshold (handleMediumThreshold (handleLowThreshold
               (handleMasterWeight (handleSetFlags (handleClearFlags
                  (snd (handleInflation x so)))))))
        else snd (handleSigner x (snd (handleHomeDomain
               (handleHighThreshold (handleMediumThreshold (handleLowThreshold
                  (handleMasterWeight (handleSetFlags (handleClearFlags
                     (snd (handleInflation x so))))))))))))"
    unfolding S e1 e2 so9 so8 so1 ..
  have F: "fst (BuildXDR x so) =
     (case e1 of
        Some err \<Rightarrow>
          Return (Operation_zero x,
                  Some (Wrap err ''Failed to set inflation destination address''))
      | None \<Rightarrow>
          (case e2 of
             Some err \<Rightarrow> Return (Operation_zero x, Some (Wrap err ''Failed to set home domain''))
           | None \<Rightarrow>
               (case e3 of
                  Panic \<Rightarrow> Panic
                | Return (Some err) \<Rightarrow>
                    Return (Operation_zero x, Some (Wrap err ''Failed to set signer''))
                | Return None \<Rightarrow>
                    (case NewOperationBody x OperationTypeSetOptions (xdrOp so9) of
                       Inl err \<Rightarrow>
                         Return (Operation_zero x,
                                 Some (Wrap err ''Failed to build XDR OperationBody''))
                     | Inr body \<Rightarrow> Return (Operation body, None)))))"
    unfolding B by (simp split: option.splits outcome.splits sum.splits)
  have P: "snd (BuildXDR x so) = so9" if "e1 = None" "e2 = None"
    unfolding S using that by simp
  show "fst (BuildXDR x so) =
     (case fst (handleInflation x so) of
        Some err \<Rightarrow>
          Return (Operation_zero x,
                  Some (Wrap err ''Failed to set inflation destination address''))
      | None \<Rightarrow>
          (case fst (handleHomeDomain so) of
             Some err \<Rightarrow> Return (Operation_zero x, Some (Wrap err ''Failed to set home domain''))
           | None \<Rightarrow>
               (case fst (handleSigner x so) of
                  Panic \<Rightarrow> Panic
                | Return (Some err) \<Rightarrow>
                    Return (Operation_zero x, Some (Wrap err ''Failed to set signer''))
                | Return None \<Rightarrow>
                    (case NewOperationBody x OperationTypeSetOptions
                            (xdrOp (snd (BuildXDR x so))) of
                       Inl err \<Rightarrow>
                         Return (Operation_zero x,
                                 Some (Wrap err ''Failed to build XDR OperationBody''))
                     | Inr body \<Rightarrow> Return (Operation body, None)))))"
    unfolding F e1 e2 e3 using P
    by (simp split: option.splits outcome.splits sum.splits)
qed

subsection \<open>A successful build\<close>

lemma BuildXDR_successD:
  assumes "BuildXDR x so = (Return (op, None), so')"
  shows "fst (handleInflation x so) = None"
    and "fst (handleHomeDomain so) = None"
    and "fst (handleSigner x so) = Return None"
    and "NewOperationBody x OperationTypeSetOptions (xdrOp so') = Inr (Body op)"
    and "so' = snd (BuildXDR x so)"
proof -
  from assms have f: "fst (BuildXDR x so) = Return (op, None)" and s: "so' = snd (BuildXDR x so)"
    by simp_all
  from f show "fst (handleInflation x so) = None"
    unfolding fst_BuildXDR [of x so]
    by (simp split: option.splits outcome.splits sum.splits)
  from f show "fst (handleHomeDomain so) = None"
    unfolding fst_BuildXDR [of x so]
    by (simp split: option.splits outcome.splits sum.splits)
  from f show "fst (handleSigner x so) = Return None"
    unfolding fst_BuildXDR [of x so]
    by (simp split: option.splits outcome.splits sum.splits)
  from f show "NewOperationBody x OperationTypeSetOptions (xdrOp so') = Inr (Body op)"
    unfolding fst_BuildXDR [of x so] s
    by (auto split: option.splits outcome.splits sum.splits)
  show "so' = snd (BuildXDR x so)" by (rule s)
qed

text \<open>The receiver once the three fallible handlers have passed.\<close>

lemma snd_BuildXDR_passed:
  assumes "fst (handleInflation x so) = None"
    and "fst (handleHomeDomain so) = None"
    and "fst (handleSigner x so) = Return None"
  shows "snd (BuildXDR x so) =
     snd (handleSigner x (snd (handleHomeDomain
        (handleHighThreshold (handleMediumThreshold (handleLowThreshold
           (handleMasterWeight (handleSetFlags (handleClearFlags
              (snd (handleInflation x so)))))))))))"
  using assms by (simp add: snd_BuildXDR)

lemma passed_slots:
  assumes "fst (handleInflation x so) = None"
    and "fst (handleHomeDomain so) = None"
    and "fst (handleSigner x so) = Return None"
  defines "p \<equiv> xdrOp (snd (BuildXDR x so))"
  shows "InflationDest p =
       (if InflationDestination so = [] then InflationDest (xdrOp so)
        else case AccountId_SetAddress x (InflationDestination so) of
               Inl err \<Rightarrow> InflationDest (xdrOp so) | Inr aid \<Rightarrow> Some aid)"
    and "ClearFlags p =
       (if ClearAuthorization so = [] then ClearFlags (xdrOp so)
        else Some (foldl (\<lambda>flags flag. flags OR flag) 0 (ClearAuthorization so)))"
    and "SetFlags p =
       (if SetAuthorization so = [] then SetFlags (xdrOp so)
        else Some (foldl (\<lambda>flags flag. flags OR flag) 0 (SetAuthorization so)))"
    and "SetOptionsOp.MasterWeight p =
       (if MasterWeight so = None then SetOptionsOp.MasterWeight (xdrOp so)
        else MasterWeight so)"
    and "SetOptionsOp.LowThreshold p =
       (if LowThreshold so = None then SetOptionsOp.LowThreshold (xdrOp so)
        else LowThreshold so)"
    and "MedThreshold p =
       (if MediumThreshold so = None then MedThreshold (xdrOp so) else MediumThreshold so)"
    and "SetOptionsOp.HighThreshold p =
       (if HighThreshold so = None then SetOptionsOp.HighThreshold (xdrOp so)
        else HighThreshold so)"
    and "SetOptionsOp.HomeDomain p =
       (if HomeDomain so = [] then SetOptionsOp.HomeDomain (xdrOp so)
        else Some (HomeDomain so))"
    and "SetOptionsOp.Signer p =
       (if Signer so = Signer_zero then SetOptionsOp.Signer (xdrOp so)
        else case Weight (Signer so) of
               None \<Rightarrow> SetOptionsOp.Signer (xdrOp so)
             | Some w \<Rightarrow>
                 (case SignerKey_SetAddress x (Address (Signer so)) of
                    Inl err \<Rightarrow> SetOptionsOp.Signer (xdrOp so)
                  | Inr k \<Rightarrow> Some \<lparr>Key = k, xdr_Signer.Weight = w\<rparr>))"
proof -
  have le: "\<not> length (HomeDomain so) > 32"
    using assms(2) by (simp add: fst_handleHomeDomain split: if_splits)
  note s = snd_BuildXDR_passed [OF assms(1-3)]
  show "InflationDest p =
       (if InflationDestination so = [] then InflationDest (xdrOp so)
        else case AccountId_SetAddress x (InflationDestination so) of
               Inl err \<Rightarrow> InflationDest (xdrOp so) | Inr aid \<Rightarrow> Some aid)"
    unfolding p_def s by (simp add: closed_forms cong: if_cong option.case_cong sum.case_cong)
  show "ClearFlags p =
       (if ClearAuthorization so = [] then ClearFlags (xdrOp so)
        else Some (foldl (\<lambda>flags flag. flags OR flag) 0 (ClearAuthorization so)))"
    unfolding p_def s by (simp add: closed_forms cong: if_cong option.case_cong sum.case_cong)
  show "SetFlags p =
       (if SetAuthorization so = [] then SetFlags (xdrOp so)
        else Some (foldl (\<lambda>flags flag. flags OR flag) 0 (SetAuthorization so)))"
    unfolding p_def s by (simp add: closed_forms cong: if_cong option.case_cong sum.case_cong)
  show "SetOptionsOp.MasterWeight p =
       (if MasterWeight so = None then SetOptionsOp.MasterWeight (xdrOp so)
        else MasterWeight so)"
    unfolding p_def s by (simp add: closed_forms cong: if_cong option.case_cong sum.case_cong)
  show "SetOptionsOp.LowThreshold p =
       (if LowThreshold so = None then SetOptionsOp.LowThreshold (xdrOp so)
        else LowThreshold so)"
    unfolding p_def s by (simp add: closed_forms cong: if_cong option.case_cong sum.case_cong)
  show "MedThreshold p =
       (if MediumThreshold so = None then MedThreshold (xdrOp so) else MediumThreshold so)"
    unfolding p_def s by (simp add: closed_forms cong: if_cong option.case_cong sum.case_cong)
  show "SetOptionsOp.HighThreshold p =
       (if HighThreshold so = None then SetOptionsOp.HighThreshold (xdrOp so)
        else HighThreshold so)"
    unfolding p_def s by (simp add: closed_forms cong: if_cong option.case_cong sum.case_cong)
  show "SetOptionsOp.HomeDomain p =
       (if HomeDomain so = [] then SetOptionsOp.HomeDomain (xdrOp so)
        else Some (HomeDomain so))"
    unfolding p_def s using le by (simp add: closed_forms cong: if_cong option.case_cong sum.case_cong)
  show "SetOptionsOp.Signer p =
       (if Signer so = Signer_zero then SetOptionsOp.Signer (xdrOp so)
        else case Weight (Signer so) of
               None \<Rightarrow> SetOptionsOp.Signer (xdrOp so)
             | Some w \<Rightarrow>
                 (case SignerKey_SetAddress x (Address (Signer so)) of
                    Inl err \<Rightarrow> SetOptionsOp.Signer (xdrOp so)
                  | Inr k \<Rightarrow> Some \<lparr>Key = k, xdr_Signer.Weight = w\<rparr>))"
    unfolding p_def s by (simp add: closed_forms cong: if_cong option.case_cong sum.case_cong)
qed

subsection \<open>The receiver after a build\<close>

text \<open>
  No handler writes a request field, and a second run of the handlers on the receiver a
  build has left finds every slot already at the value it would store.
\<close>

lemma BuildXDR_request:
  "InflationDestination (snd (BuildXDR x so)) = InflationDestination so"
  "SetAuthorization (snd (BuildXDR x so)) = SetAuthorization so"
  "ClearAuthorization (snd (BuildXDR x so)) = ClearAuthorization so"
  "MasterWeight (snd (BuildXDR x so)) = MasterWeight so"
  "LowThreshold (snd (BuildXDR x so)) = LowThreshold so"
  "MediumThreshold (snd (BuildXDR x so)) = MediumThreshold so"
  "HighThreshold (snd (BuildXDR x so)) = HighThreshold so"
  "HomeDomain (snd (BuildXDR x so)) = HomeDomain so"
  "Signer (snd (BuildXDR x so)) = Signer so"
  by (simp_all add: snd_BuildXDR closed_forms cong: if_cong option.case_cong sum.case_cong)

lemma BuildXDR_handlers_again:
  "fst (handleInflation x (snd (BuildXDR x so))) = fst (handleInflation x so)"
  "fst (handleHomeDomain (snd (BuildXDR x so))) = fst (handleHomeDomain so)"
  "fst (handleSigner x (snd (BuildXDR x so))) = fst (handleSigner x so)"
  by (simp_all only: fst_handleInflation fst_handleHomeDomain fst_handleSigner BuildXDR_request)

lemma passed_payload_again:
  assumes p1: "fst (handleInflation x so) = None"
    and p2: "fst (handleHomeDomain so) = None"
    and p3: "fst (handleSigner x so) = Return None"
  shows "xdrOp (snd (BuildXDR x (snd (BuildXDR x so)))) = xdrOp (snd (BuildXDR x so))"
proof -
  let ?so' = "snd (BuildXDR x so)"
  have q1: "fst (handleInflation x ?so') = None" and q2: "fst (handleHomeDomain ?so') = None"
    and q3: "fst (handleSigner x ?so') = Return None"
    using p1 p2 p3 by (simp_all only: BuildXDR_handlers_again)
  note s = passed_slots [OF p1 p2 p3]
  note t = passed_slots [OF q1 q2 q3, unfolded BuildXDR_request]
  show ?thesis
  proof (rule SetOptionsOp.equality)
    show "InflationDest (xdrOp (snd (BuildXDR x ?so'))) = InflationDest (xdrOp ?so')"
      unfolding t(1) unfolding s(1) by (simp split: sum.splits)
    show "ClearFlags (xdrOp (snd (BuildXDR x ?so'))) = ClearFlags (xdrOp ?so')"
      unfolding t(2) unfolding s(2) by simp
    show "SetFlags (xdrOp (snd (BuildXDR x ?so'))) = SetFlags (xdrOp ?so')"
      unfolding t(3) unfolding s(3) by simp
    show "SetOptionsOp.MasterWeight (xdrOp (snd (BuildXDR x ?so')))
        = SetOptionsOp.MasterWeight (xdrOp ?so')"
      unfolding t(4) unfolding s(4) by simp
    show "SetOptionsOp.LowThreshold (xdrOp (snd (BuildXDR x ?so')))
        = SetOptionsOp.LowThreshold (xdrOp ?so')"
      unfolding t(5) unfolding s(5) by simp
    show "MedThreshold (xdrOp (snd (BuildXDR x ?so'))) = MedThreshold (xdrOp ?so')"
      unfolding t(6) unfolding s(6) by simp
    show "SetOptionsOp.HighThreshold (xdrOp (snd (BuildXDR x ?so')))
        = SetOptionsOp.HighThreshold (xdrOp ?so')"
      unfolding t(7) unfolding s(7) by simp
    show "SetOptionsOp.HomeDomain (xdrOp (snd (BuildXDR x ?so')))
        = SetOptionsOp.HomeDomain (xdrOp ?so')"
      unfolding t(8) unfolding s(8) by simp
    show "SetOptionsOp.Signer (xdrOp (snd (BuildXDR x ?so'))) = SetOptionsOp.Signer (xdrOp ?so')"
      unfolding t(9) unfolding s(9) by (simp split: option.splits sum.splits)
  qed simp
qed

section \<open>The claims\<close>

text \<open>The definitions a concrete instance is evaluated with.\<close>

lemmas model_defs = BuildXDR_def handleInflation_def handleClearFlags_def handleSetFlags_def
  handleMasterWeight_def handleLowThreshold_def handleMediumThreshold_def
  handleHighThreshold_def handleHomeDomain_def handleSigner_def
  xdr_model_def SetOptions_zero_def SetOptionsOp_zero_def Signer_zero_def Operation_zero_def
  example_request_def example_record_def NewThreshold_def

subsection \<open>Flags\<close>

text \<open>
  Claim C1. The mask that \<^verbatim>\<open>handleSetFlags\<close> (and likewise \<^verbatim>\<open>handleClearFlags\<close>)
  stores for a non-empty sequence, also in the record of a successful build, is the
  bitwise OR of the listed values: bit \<open>n\<close> of the mask is set exactly when some listed
  value has bit \<open>n\<close> set. So two sequences with the same set of values (any order, any
  repetition) give the same mask; \<open>[1,2,4]\<close>, \<open>[4,2,1]\<close> and \<open>[1,1,2,4,2,4]\<close> give 7,
  and \<open>[3,3,3]\<close>, a value outside the flag enumeration, gives 3.
\<close>

theorem merged_mask_is_bitwise_or:
  fixes so ot :: "('a, 'k) SetOptions" and x :: "('a, 'k, 'b) xdr"
  shows
    "(SetAuthorization so \<noteq> [] \<longrightarrow>
        (\<exists>m. SetFlags (xdrOp (handleSetFlags so)) = Some m
           \<and> (\<forall>n. bit m n \<longleftrightarrow> (\<exists>f\<in>set (SetAuthorization so). bit f n))))
   \<and> (ClearAuthorization so \<noteq> [] \<longrightarrow>
        (\<exists>m. ClearFlags (xdrOp (handleClearFlags so)) = Some m
           \<and> (\<forall>n. bit m n \<longleftrightarrow> (\<exists>f\<in>set (ClearAuthorization so). bit f n))))
   \<and> (\<forall>op so'. BuildXDR x so = (Return (op, None), so') \<longrightarrow>
        (SetAuthorization so \<noteq> [] \<longrightarrow>
           (\<exists>m. SetFlags (xdrOp so') = Some m
              \<and> (\<forall>n. bit m n \<longleftrightarrow> (\<exists>f\<in>set (SetAuthorization so). bit f n))))
      \<and> (ClearAuthorization so \<noteq> [] \<longrightarrow>
           (\<exists>m. ClearFlags (xdrOp so') = Some m
              \<and> (\<forall>n. bit m n \<longleftrightarrow> (\<exists>f\<in>set (ClearAuthorization so). bit f n)))))
   \<and> (SetAuthorization so \<noteq> [] \<and> set (SetAuthorization ot) = set (SetAuthorization so) \<longrightarrow>
        SetFlags (xdrOp (handleSetFlags ot)) = SetFlags (xdrOp (handleSetFlags so)))
   \<and> (ClearAuthorization so \<noteq> [] \<and> set (ClearAuthorization ot) = set (ClearAuthorization so) \<longrightarrow>
        ClearFlags (xdrOp (handleClearFlags ot)) = ClearFlags (xdrOp (handleClearFlags so)))
   \<and> SetFlags (xdrOp (handleSetFlags (so\<lparr>SetAuthorization := [1, 2, 4]\<rparr>))) = Some 7
   \<and> SetFlags (xdrOp (handleSetFlags (so\<lparr>SetAuthorization := [4, 2, 1]\<rparr>))) = Some 7
   \<and> SetFlags (xdrOp (handleSetFlags (so\<lparr>SetAuthorization := [1, 1, 2, 4, 2, 4]\<rparr>))) = Some 7
   \<and> SetFlags (xdrOp (handleSetFlags (so\<lparr>SetAuthorization := [3, 3, 3]\<rparr>))) = Some 3
   \<and> ClearFlags (xdrOp (handleClearFlags (so\<lparr>ClearAuthorization := [1, 2, 4]\<rparr>))) = Some 7
   \<and> ClearFlags (xdrOp (handleClearFlags (so\<lparr>ClearAuthorization := [4, 2, 1]\<rparr>))) = Some 7
   \<and> ClearFlags (xdrOp (handleClearFlags (so\<lparr>ClearAuthorization := [1, 1, 2, 4, 2, 4]\<rparr>))) = Some 7
   \<and> ClearFlags (xdrOp (handleClearFlags (so\<lparr>ClearAuthorization := [3, 3, 3]\<rparr>))) = Some 3"
proof -
  have or_set: "foldl (\<lambda>flags flag. flags OR flag) (0 :: Uint32) xs
      = foldl (\<lambda>flags flag. flags OR flag) 0 ys" if "set xs = set ys" for xs ys
    using that by (intro bit_eqI) (simp add: bit_foldl_OR)
  have a: "SetAuthorization so \<noteq> [] \<longrightarrow>
        (\<exists>m. SetFlags (xdrOp (handleSetFlags so)) = Some m
           \<and> (\<forall>n. bit m n \<longleftrightarrow> (\<exists>f\<in>set (SetAuthorization so). bit f n)))"
    by (simp add: handleSetFlags_eq bit_foldl_OR)
  have b: "ClearAuthorization so \<noteq> [] \<longrightarrow>
        (\<exists>m. ClearFlags (xdrOp (handleClearFlags so)) = Some m
           \<and> (\<forall>n. bit m n \<longleftrightarrow> (\<exists>f\<in>set (ClearAuthorization so). bit f n)))"
    by (simp add: handleClearFlags_eq bit_foldl_OR)
  have c: "\<forall>op so'. BuildXDR x so = (Return (op, None), so') \<longrightarrow>
        (SetAuthorization so \<noteq> [] \<longrightarrow>
           (\<exists>m. SetFlags (xdrOp so') = Some m
              \<and> (\<forall>n. bit m n \<longleftrightarrow> (\<exists>f\<in>set (SetAuthorization so). bit f n))))
      \<and> (ClearAuthorization so \<noteq> [] \<longrightarrow>
           (\<exists>m. ClearFlags (xdrOp so') = Some m
              \<and> (\<forall>n. bit m n \<longleftrightarrow> (\<exists>f\<in>set (ClearAuthorization so). bit f n))))"
  proof (intro allI impI)
    fix op so'
    assume B: "BuildXDR x so = (Return (op, None), so')"
    note p = BuildXDR_successD(1-3) [OF B] and so' = BuildXDR_successD(5) [OF B]
    show "(SetAuthorization so \<noteq> [] \<longrightarrow>
           (\<exists>m. SetFlags (xdrOp so') = Some m
              \<and> (\<forall>n. bit m n \<longleftrightarrow> (\<exists>f\<in>set (SetAuthorization so). bit f n))))
      \<and> (ClearAuthorization so \<noteq> [] \<longrightarrow>
           (\<exists>m. ClearFlags (xdrOp so') = Some m
              \<and> (\<forall>n. bit m n \<longleftrightarrow> (\<exists>f\<in>set (ClearAuthorization so). bit f n))))"
      unfolding so' by (simp add: passed_slots(2,3) [OF p] bit_foldl_OR)
  qed
  have d: "SetAuthorization so \<noteq> [] \<and> set (SetAuthorization ot) = set (SetAuthorization so) \<longrightarrow>
        SetFlags (xdrOp (handleSetFlags ot)) = SetFlags (xdrOp (handleSetFlags so))"
    using or_set [of "SetAuthorization ot" "SetAuthorization so"]
    by (auto simp: handleSetFlags_eq)
  have e: "ClearAuthorization so \<noteq> [] \<and> set (ClearAuthorization ot) = set (ClearAuthorization so) \<longrightarrow>
        ClearFlags (xdrOp (handleClearFlags ot)) = ClearFlags (xdrOp (handleClearFlags so))"
    using or_set [of "ClearAuthorization ot" "ClearAuthorization so"]
    by (auto simp: handleClearFlags_eq)
  have f: "SetFlags (xdrOp (handleSetFlags (so\<lparr>SetAuthorization := [1, 2, 4]\<rparr>))) = Some 7"
    "SetFlags (xdrOp (handleSetFlags (so\<lparr>SetAuthorization := [4, 2, 1]\<rparr>))) = Some 7"
    "SetFlags (xdrOp (handleSetFlags (so\<lparr>SetAuthorization := [1, 1, 2, 4, 2, 4]\<rparr>))) = Some 7"
    "SetFlags (xdrOp (handleSetFlags (so\<lparr>SetAuthorization := [3, 3, 3]\<rparr>))) = Some 3"
    by (simp_all add: handleSetFlags_eq)
  have g: "ClearFlags (xdrOp (handleClearFlags (so\<lparr>ClearAuthorization := [1, 2, 4]\<rparr>))) = Some 7"
    "ClearFlags (xdrOp (handleClearFlags (so\<lparr>ClearAuthorization := [4, 2, 1]\<rparr>))) = Some 7"
    "ClearFlags (xdrOp (handleClearFlags (so\<lparr>ClearAuthorization := [1, 1, 2, 4, 2, 4]\<rparr>))) = Some 7"
    "ClearFlags (xdrOp (handleClearFlags (so\<lparr>ClearAuthorization := [3, 3, 3]\<rparr>))) = Some 3"
    by (simp_all add: handleClearFlags_eq)
  from a b c d e f g show ?thesis by blast
qed

theorem merged_mask_is_bitwise_or_witness:
  "SetAuthorization (SetOptions_zero\<lparr>SetAuthorization := [1, 1, 2, 4, 2, 4],
                                    ClearAuthorization := [4, 2, 1]\<rparr>) \<noteq> []
   \<and> ClearAuthorization (SetOptions_zero\<lparr>SetAuthorization := [1, 1, 2, 4, 2, 4],
                                        ClearAuthorization := [4, 2, 1]\<rparr>) \<noteq> []
   \<and> set (SetAuthorization (SetOptions_zero\<lparr>SetAuthorization := [4, 2, 1],
                                            ClearAuthorization := [1, 2, 4, 4]\<rparr>))
     = set (SetAuthorization (SetOptions_zero\<lparr>SetAuthorization := [1, 1, 2, 4, 2, 4],
                                              ClearAuthorization := [4, 2, 1]\<rparr>))
   \<and> set (ClearAuthorization (SetOptions_zero\<lparr>SetAuthorization := [4, 2, 1],
                                              ClearAuthorization := [1, 2, 4, 4]\<rparr>))
     = set (ClearAuthorization (SetOptions_zero\<lparr>SetAuthorization := [1, 1, 2, 4, 2, 4],
                                                ClearAuthorization := [4, 2, 1]\<rparr>))
   \<and> fst (BuildXDR xdr_model (SetOptions_zero\<lparr>SetAuthorization := [1, 1, 2, 4, 2, 4],
                                                ClearAuthorization := [4, 2, 1]\<rparr>))
     = Return (Operation (Some (SetOptionsOp_zero\<lparr>ClearFlags := Some 7, SetFlags := Some 7\<rparr>)),
               None)
   \<and> SetFlags (xdrOp (handleSetFlags (SetOptions_zero\<lparr>SetAuthorization := [4, 2, 1],
                                                       ClearAuthorization := [1, 2, 4, 4]\<rparr>)))
     = SetFlags (xdrOp (handleSetFlags (SetOptions_zero\<lparr>SetAuthorization := [1, 1, 2, 4, 2, 4],
                                                         ClearAuthorization := [4, 2, 1]\<rparr>)))
   \<and> ClearFlags (xdrOp (handleClearFlags (SetOptions_zero\<lparr>SetAuthorization := [4, 2, 1],
                                                       ClearAuthorization := [1, 2, 4, 4]\<rparr>)))
     = ClearFlags (xdrOp (handleClearFlags (SetOptions_zero\<lparr>SetAuthorization := [1, 1, 2, 4, 2, 4],
                                                         ClearAuthorization := [4, 2, 1]\<rparr>)))"
  using merged_mask_is_bitwise_or
    [where so = "SetOptions_zero\<lparr>SetAuthorization := [1, 1, 2, 4, 2, 4],
                                  ClearAuthorization := [4, 2, 1]\<rparr>"
       and ot = "SetOptions_zero\<lparr>SetAuthorization := [4, 2, 1],
                                    ClearAuthorization := [1, 2, 4, 4]\<rparr>"
       and x = xdr_model]
  by (simp add: model_defs insert_commute)



subsection \<open>Presence of the slots\<close>






subsection \<open>The home domain\<close>



subsection \<open>Failures\<close>

text \<open>
  Claim C6. The handlers that can fail run in the order inflation destination, home
  domain, signer, and the first error stops the build: an error of the inflation handler
  is returned wrapped with "Failed to set inflation destination address" whatever the
  home domain and the signer are (so also when the home domain is too long); a home domain
  that is too long is reported, wrapped with "Failed to set home domain", once the
  inflation handler has passed, whatever the signer is; an error of the signer handler is
  returned wrapped with "Failed to set signer" once both have passed. Whenever the build
  returns an error, the operation returned with it is the zero value
  \<^verbatim>\<open>xdr.Operation{}\<close>.
\<close>

theorem first_failure_aborts:
  fixes so :: "('a, 'k) SetOptions" and x :: "('a, 'k, 'b) xdr"
  shows
    "(\<forall>e. fst (handleInflation x so) = Some e \<longrightarrow>
        fst (BuildXDR x so) =
          Return (Operation_zero x,
                  Some (Wrap e ''Failed to set inflation destination address'')))
   \<and> (\<forall>e. InflationDestination so \<noteq> []
          \<and> AccountId_SetAddress x (InflationDestination so) = Inl e
          \<and> 32 < length (HomeDomain so) \<longrightarrow>
        fst (BuildXDR x so) =
          Return (Operation_zero x,
                  Some (Wrap e ''Failed to set inflation destination address'')))
   \<and> (fst (handleInflation x so) = None \<and> 32 < length (HomeDomain so) \<longrightarrow>
        fst (BuildXDR x so) =
          Return (Operation_zero x,
                  Some (Wrap (New ''HomeDomain must be 32 characters or less'') ''Failed to set home domain'')))
   \<and> (\<forall>e. fst (handleInflation x so) = None \<and> length (HomeDomain so) \<le> 32
          \<and> fst (handleSigner x so) = Return (Some e) \<longrightarrow>
        fst (BuildXDR x so) =
          Return (Operation_zero x, Some (Wrap e ''Failed to set signer'')))
   \<and> (\<forall>op e. fst (BuildXDR x so) = Return (op, Some e) \<longrightarrow> op = Operation_zero x)"
proof -
  have a: "\<forall>e. fst (handleInflation x so) = Some e \<longrightarrow>
        fst (BuildXDR x so) =
          Return (Operation_zero x,
                  Some (Wrap e ''Failed to set inflation destination address''))"
    by (simp add: fst_BuildXDR)
  have b: "\<forall>e. InflationDestination so \<noteq> []
          \<and> AccountId_SetAddress x (InflationDestination so) = Inl e
          \<and> 32 < length (HomeDomain so) \<longrightarrow>
        fst (BuildXDR x so) =
          Return (Operation_zero x,
                  Some (Wrap e ''Failed to set inflation destination address''))"
    by (simp add: fst_BuildXDR fst_handleInflation)
  have c: "fst (handleInflation x so) = None \<and> 32 < length (HomeDomain so) \<longrightarrow>
        fst (BuildXDR x so) =
          Return (Operation_zero x,
                  Some (Wrap (New ''HomeDomain must be 32 characters or less'') ''Failed to set home domain''))"
    by (simp add: fst_BuildXDR fst_handleHomeDomain)
  have d: "\<forall>e. fst (handleInflation x so) = None \<and> length (HomeDomain so) \<le> 32
          \<and> fst (handleSigner x so) = Return (Some e) \<longrightarrow>
        fst (BuildXDR x so) =
          Return (Operation_zero x, Some (Wrap e ''Failed to set signer''))"
    by (simp add: fst_BuildXDR fst_handleHomeDomain)
  have e: "\<forall>op e. fst (BuildXDR x so) = Return (op, Some e) \<longrightarrow> op = Operation_zero x"
    by (simp add: fst_BuildXDR split: option.splits outcome.splits sum.splits)
  from a b c d e show ?thesis by blast
qed

theorem first_failure_aborts_witness:
  "fst (handleInflation xdr_model
          (SetOptions_zero\<lparr>InflationDestination := ''bad'', HomeDomain := ''aaaaaaaaaaaaaaaaaaaaaaaaaaaaaaaaaaaa.com'',
                           Signer := \<lparr>Address = ''bad'', Weight = NewThreshold 1\<rparr>\<rparr>))
     = Some (New ''invalid address'')
   \<and> InflationDestination
        (SetOptions_zero\<lparr>InflationDestination := ''bad'', HomeDomain := ''aaaaaaaaaaaaaaaaaaaaaaaaaaaaaaaaaaaa.com'',
                         Signer := \<lparr>Address = ''bad'', Weight = NewThreshold 1\<rparr>\<rparr>) \<noteq> []
   \<and> AccountId_SetAddress xdr_model ''bad'' = Inl (New ''invalid address'')
   \<and> 32 < length (HomeDomain
        (SetOptions_zero\<lparr>InflationDestination := ''bad'', HomeDomain := ''aaaaaaaaaaaaaaaaaaaaaaaaaaaaaaaaaaaa.com'',
                         Signer := \<lparr>Address = ''bad'', Weight = NewThreshold 1\<rparr>\<rparr>))
   \<and> fst (BuildXDR xdr_model
        (SetOptions_zero\<lparr>InflationDestination := ''bad'', HomeDomain := ''aaaaaaaaaaaaaaaaaaaaaaaaaaaaaaaaaaaa.com'',
                         Signer := \<lparr>Address = ''bad'', Weight = NewThreshold 1\<rparr>\<rparr>))
     = Return (Operation None,
               Some (Wrap (New ''invalid address'')
                       ''Failed to set inflation destination address''))
   \<and> fst (handleInflation xdr_model
          (SetOptions_zero\<lparr>HomeDomain := ''aaaaaaaaaaaaaaaaaaaaaaaaaaaaaaaaaaaa.com'', Signer := \<lparr>Address = ''bad'', Weight = NewThreshold 1\<rparr>\<rparr>)) = None
   \<and> fst (BuildXDR xdr_model
          (SetOptions_zero\<lparr>HomeDomain := ''aaaaaaaaaaaaaaaaaaaaaaaaaaaaaaaaaaaa.com'', Signer := \<lparr>Address = ''bad'', Weight = NewThreshold 1\<rparr>\<rparr>))
     = Return (Operation None,
               Some (Wrap (New ''HomeDomain must be 32 characters or less'') ''Failed to set home domain''))
   \<and> fst (handleInflation xdr_model (SetOptions_zero\<lparr>Signer := \<lparr>Address = ''bad'', Weight = NewThreshold 1\<rparr>\<rparr>)) = None
   \<and> length (HomeDomain (SetOptions_zero\<lparr>Signer := \<lparr>Address = ''bad'', Weight = NewThreshold 1\<rparr>\<rparr>)) \<le> 32
   \<and> fst (handleSigner xdr_model (SetOptions_zero\<lparr>Signer := \<lparr>Address = ''bad'', Weight = NewThreshold 1\<rparr>\<rparr>))
     = Return (Some (New ''invalid address''))
   \<and> fst (BuildXDR xdr_model (SetOptions_zero\<lparr>Signer := \<lparr>Address = ''bad'', Weight = NewThreshold 1\<rparr>\<rparr>))
     = Return (Operation None,
               Some (Wrap (New ''invalid address'') ''Failed to set signer''))"
  using first_failure_aborts
      [where so = "SetOptions_zero\<lparr>InflationDestination := ''bad'', HomeDomain := ''aaaaaaaaaaaaaaaaaaaaaaaaaaaaaaaaaaaa.com'',
                                   Signer := \<lparr>Address = ''bad'', Weight = NewThreshold 1\<rparr>\<rparr>"
         and x = xdr_model]
    first_failure_aborts
      [where so = "SetOptions_zero\<lparr>HomeDomain := ''aaaaaaaaaaaaaaaaaaaaaaaaaaaaaaaaaaaa.com'', Signer := \<lparr>Address = ''bad'', Weight = NewThreshold 1\<rparr>\<rparr>"
         and x = xdr_model]
    first_failure_aborts
      [where so = "SetOptions_zero\<lparr>Signer := \<lparr>Address = ''bad'', Weight = NewThreshold 1\<rparr>\<rparr>" and x = xdr_model]
  by (simp add: model_defs)

text \<open>
  Claim C7, as stated, does not hold: the error for a home domain that is too long is
  made by \<^verbatim>\<open>errors.New\<close> from a constant text, so a domain of 33 bytes and one of 40
  produce the same error value, and no measured length can be read from it.
\<close>

theorem field_too_long_omits_length_counterexample:
  "length (HomeDomain (SetOptions_zero\<lparr>HomeDomain := ''aaaaaaaaaaaaaaaaaaaaaaaaaaaaa.com''\<rparr>)) = 33
   \<and> length (HomeDomain (SetOptions_zero\<lparr>HomeDomain := ''aaaaaaaaaaaaaaaaaaaaaaaaaaaaaaaaaaaa.com''\<rparr>)) = 40
   \<and> fst (BuildXDR xdr_model (SetOptions_zero\<lparr>HomeDomain := ''aaaaaaaaaaaaaaaaaaaaaaaaaaaaa.com''\<rparr>))
     = Return (Operation None,
               Some (Wrap (New ''HomeDomain must be 32 characters or less'') ''Failed to set home domain''))
   \<and> fst (BuildXDR xdr_model (SetOptions_zero\<lparr>HomeDomain := ''aaaaaaaaaaaaaaaaaaaaaaaaaaaaaaaaaaaa.com''\<rparr>))
     = fst (BuildXDR xdr_model (SetOptions_zero\<lparr>HomeDomain := ''aaaaaaaaaaaaaaaaaaaaaaaaaaaaa.com''\<rparr>))"
  by (simp add: model_defs)

text \<open>
  Claim C7, amended. Whenever the build fails because the home domain is longer than 32,
  the returned error is the constant text "HomeDomain must be 32 characters or less",
  which names the limit, wrapped with "Failed to set home domain". It is the same value
  for every such request: the measured length is not part of it.
\<close>

theorem field_too_long_error_is_constant:
  fixes so ot :: "('a, 'k) SetOptions" and x :: "('a, 'k, 'b) xdr"
  assumes "32 < length (HomeDomain so)" and "fst (handleInflation x so) = None"
  shows
    "fst (handleHomeDomain so) = Some (New ''HomeDomain must be 32 characters or less'')
   \<and> fst (BuildXDR x so) =
       Return (Operation_zero x,
               Some (Wrap (New ''HomeDomain must be 32 characters or less'') ''Failed to set home domain''))
   \<and> (32 < length (HomeDomain ot) \<and> fst (handleInflation x ot) = None \<longrightarrow>
        fst (BuildXDR x ot) = fst (BuildXDR x so))"
  using assms by (simp add: fst_BuildXDR fst_handleHomeDomain)

theorem field_too_long_error_is_constant_witness:
  "32 < length (HomeDomain (SetOptions_zero\<lparr>HomeDomain := ''aaaaaaaaaaaaaaaaaaaaaaaaaaaaaaaaaaaa.com''\<rparr>))
   \<and> fst (handleInflation xdr_model (SetOptions_zero\<lparr>HomeDomain := ''aaaaaaaaaaaaaaaaaaaaaaaaaaaaaaaaaaaa.com''\<rparr>)) = None
   \<and> 32 < length (HomeDomain (example_request\<lparr>HomeDomain := ''aaaaaaaaaaaaaaaaaaaaaaaaaaaaa.com''\<rparr>))
   \<and> fst (handleInflation xdr_model (example_request\<lparr>HomeDomain := ''aaaaaaaaaaaaaaaaaaaaaaaaaaaaa.com''\<rparr>)) = None
   \<and> fst (handleHomeDomain (SetOptions_zero\<lparr>HomeDomain := ''aaaaaaaaaaaaaaaaaaaaaaaaaaaaaaaaaaaa.com''\<rparr>)) = Some (New ''HomeDomain must be 32 characters or less'')
   \<and> fst (BuildXDR xdr_model (example_request\<lparr>HomeDomain := ''aaaaaaaaaaaaaaaaaaaaaaaaaaaaa.com''\<rparr>))
     = fst (BuildXDR xdr_model (SetOptions_zero\<lparr>HomeDomain := ''aaaaaaaaaaaaaaaaaaaaaaaaaaaaaaaaaaaa.com''\<rparr>))"
proof -
  have l: "32 < length (HomeDomain (SetOptions_zero\<lparr>HomeDomain := ''aaaaaaaaaaaaaaaaaaaaaaaaaaaaaaaaaaaa.com''\<rparr>))"
    by (simp add: model_defs)
  have i: "fst (handleInflation xdr_model (SetOptions_zero\<lparr>HomeDomain := ''aaaaaaaaaaaaaaaaaaaaaaaaaaaaaaaaaaaa.com''\<rparr>)) = None"
    by (simp add: model_defs)
  from field_too_long_error_is_constant
    [OF l i, where ot = "example_request\<lparr>HomeDomain := ''aaaaaaaaaaaaaaaaaaaaaaaaaaaaa.com''\<rparr>"]
  show ?thesis
    using l i by (simp add: model_defs)
qed

subsection \<open>Building twice\<close>

text \<open>
  Claim C8. A second \<^verbatim>\<open>BuildXDR\<close> on the request as the first call left it (fields
  unmodified, accumulator filled by the first call) has the same outcome as the first:
  it fails exactly when the first did, with the same error, and on success it returns
  the same operation.
\<close>

theorem BuildXDR_twice_same_result:
  fixes so :: "('a, 'k) SetOptions" and x :: "('a, 'k, 'b) xdr"
  shows "fst (BuildXDR x (snd (BuildXDR x so))) = fst (BuildXDR x so)"
proof -
  note A = fst_BuildXDR [of x "snd (BuildXDR x so)", unfolded BuildXDR_handlers_again]
  note B = fst_BuildXDR [of x so]
  show ?thesis
  proof (cases "fst (handleInflation x so)")
    case (Some e)
    then show ?thesis
      by (simp add: A B)
  next
    case n1: None
    show ?thesis
    proof (cases "fst (handleHomeDomain so)")
      case (Some e)
      with n1 show ?thesis
        by (simp add: A B)
    next
      case n2: None
      show ?thesis
      proof (cases "fst (handleSigner x so)")
        case Panic
        with n1 n2 show ?thesis
          by (simp add: A B)
      next
        case (Return r)
        show ?thesis
        proof (cases r)
          case (Some e)
          with n1 n2 Return show ?thesis
            by (simp add: A B)
        next
          case None
          with Return have n3: "fst (handleSigner x so) = Return None"
            by simp
          have "xdrOp (snd (BuildXDR x (snd (BuildXDR x so)))) = xdrOp (snd (BuildXDR x so))"
            by (rule passed_payload_again [OF n1 n2 n3])
          with n1 n2 n3 show ?thesis
            by (simp add: A B)
        qed
      qed
    qed
  qed
qed

theorem BuildXDR_twice_same_result_witness:
  "fst (BuildXDR xdr_model example_request) = Return (Operation (Some example_record), None)
   \<and> fst (BuildXDR xdr_model (snd (BuildXDR xdr_model example_request)))
     = Return (Operation (Some example_record), None)"
proof -
  have "fst (BuildXDR xdr_model example_request)
      = Return (Operation (Some example_record), None)"
    by (simp add: model_defs)
  with BuildXDR_twice_same_result [of xdr_model example_request] show ?thesis
    by simp
qed

subsection \<open>The signer\<close>

text \<open>
  Claim C9 does not hold of the code. The signer handler guards with
  \<^verbatim>\<open>so.Signer != (Signer{})\<close> and then reads \<^verbatim>\<open>*so.Signer.Weight\<close> without the nil
  check that the weight and threshold handlers make: for a signer that differs from
  \<^verbatim>\<open>Signer{}\<close> and has a nil weight, so for every signer with a non-empty address and
  a nil weight, the handler panics, and so does the build once the inflation destination
  and the home domain have passed.
\<close>

theorem nil_signer_weight_panics:
  fixes so :: "('a, 'k) SetOptions" and x :: "('a, 'k, 'b) xdr"
  assumes "Address (Signer so) \<noteq> []" and "Weight (Signer so) = None"
  shows
    "Signer so \<noteq> Signer_zero
   \<and> handleSigner x so = (Panic, so)
   \<and> (fst (handleInflation x so) = None \<and> length (HomeDomain so) \<le> 32 \<longrightarrow>
        fst (BuildXDR x so) = Panic)"
proof -
  from assms(1) have n: "Signer so \<noteq> Signer_zero"
    by (auto simp: Signer_zero_def)
  with assms(2) have h: "handleSigner x so = (Panic, so)"
    by (simp add: handleSigner_def)
  then have "fst (handleSigner x so) = Panic"
    by simp
  then have "fst (handleInflation x so) = None \<and> length (HomeDomain so) \<le> 32 \<longrightarrow>
        fst (BuildXDR x so) = Panic"
    by (simp add: fst_BuildXDR fst_handleHomeDomain)
  with n h show ?thesis by simp
qed

theorem nil_signer_weight_panics_witness:
  "Address (Signer (SetOptions_zero\<lparr>Signer := \<lparr>Address = ''GCEZWKCA5VLDNRLN3RPRJMRZOX3Z6G5CHCGSNFHEYVXM3XOJMDS674JZ'', Weight = None\<rparr>\<rparr>)) \<noteq> []
   \<and> Weight (Signer (SetOptions_zero\<lparr>Signer := \<lparr>Address = ''GCEZWKCA5VLDNRLN3RPRJMRZOX3Z6G5CHCGSNFHEYVXM3XOJMDS674JZ'', Weight = None\<rparr>\<rparr>)) = None
   \<and> fst (handleInflation xdr_model (SetOptions_zero\<lparr>Signer := \<lparr>Address = ''GCEZWKCA5VLDNRLN3RPRJMRZOX3Z6G5CHCGSNFHEYVXM3XOJMDS674JZ'', Weight = None\<rparr>\<rparr>)) = None
   \<and> length (HomeDomain (SetOptions_zero\<lparr>Signer := \<lparr>Address = ''GCEZWKCA5VLDNRLN3RPRJMRZOX3Z6G5CHCGSNFHEYVXM3XOJMDS674JZ'', Weight = None\<rparr>\<rparr>)) \<le> 32
   \<and> fst (BuildXDR xdr_model (SetOptions_zero\<lparr>Signer := \<lparr>Address = ''GCEZWKCA5VLDNRLN3RPRJMRZOX3Z6G5CHCGSNFHEYVXM3XOJMDS674JZ'', Weight = None\<rparr>\<rparr>)) = Panic"
proof -
  have a: "Address (Signer (SetOptions_zero\<lparr>Signer := \<lparr>Address = ''GCEZWKCA5VLDNRLN3RPRJMRZOX3Z6G5CHCGSNFHEYVXM3XOJMDS674JZ'', Weight = None\<rparr>\<rparr>)) \<noteq> []"
    and w: "Weight (Signer (SetOptions_zero\<lparr>Signer := \<lparr>Address = ''GCEZWKCA5VLDNRLN3RPRJMRZOX3Z6G5CHCGSNFHEYVXM3XOJMDS674JZ'', Weight = None\<rparr>\<rparr>)) = None"
    by (simp_all add: model_defs)
  from nil_signer_weight_panics [OF a w, where x = xdr_model] show ?thesis
    using a w by (simp add: model_defs)
qed

text \<open>
  Claim C10. A signer with an empty address and a present weight differs from
  \<^verbatim>\<open>Signer{}\<close>, so the handler does resolve the empty address. With a codec that rejects
  the empty text, the handler returns the codec's error and sets no slot; the build
  never returns a record for such a request, and its error is the signer error, wrapped
  with "Failed to set signer", whenever the inflation destination and the home domain
  have passed.
\<close>

theorem empty_signer_address_with_weight_fails:
  fixes so :: "('a, 'k) SetOptions" and x :: "('a, 'k, 'b) xdr"
  assumes addr: "Address (Signer so) = []" and weight: "Weight (Signer so) = Some w"
    and rejects: "SignerKey_SetAddress x [] = Inl e"
  shows
    "Signer so \<noteq> Signer_zero
   \<and> handleSigner x so = (Return (Some e), so)
   \<and> (fst (handleInflation x so) = None \<and> length (HomeDomain so) \<le> 32 \<longrightarrow>
        fst (BuildXDR x so) = Return (Operation_zero x, Some (Wrap e ''Failed to set signer'')))
   \<and> (\<exists>e'. fst (BuildXDR x so) = Return (Operation_zero x, Some e'))
   \<and> SetOptionsOp.Signer (xdrOp (snd (BuildXDR x so))) = SetOptionsOp.Signer (xdrOp so)"
proof -
  from weight have n: "Signer so \<noteq> Signer_zero"
    by (auto simp: Signer_zero_def)
  with addr weight rejects have h: "handleSigner x so = (Return (Some e), so)"
    by (simp add: handleSigner_def)
  then have f: "fst (handleSigner x so) = Return (Some e)"
    by simp
  then have b: "fst (handleInflation x so) = None \<and> length (HomeDomain so) \<le> 32 \<longrightarrow>
        fst (BuildXDR x so) = Return (Operation_zero x, Some (Wrap e ''Failed to set signer''))"
    by (simp add: fst_BuildXDR fst_handleHomeDomain)
  from f have c: "\<exists>e'. fst (BuildXDR x so) = Return (Operation_zero x, Some e')"
    by (simp add: fst_BuildXDR split: option.splits)
  have d: "SetOptionsOp.Signer (xdrOp (snd (BuildXDR x so))) = SetOptionsOp.Signer (xdrOp so)"
    using n addr weight rejects
    by (simp add: snd_BuildXDR closed_forms cong: if_cong option.case_cong sum.case_cong)
  from n h b c d show ?thesis by simp
qed

theorem empty_signer_address_with_weight_fails_witness:
  "Address (Signer (SetOptions_zero\<lparr>Signer := \<lparr>Address = [], Weight = NewThreshold 1\<rparr>\<rparr>)) = []
   \<and> Weight (Signer (SetOptions_zero\<lparr>Signer := \<lparr>Address = [], Weight = NewThreshold 1\<rparr>\<rparr>)) = Some 1
   \<and> SignerKey_SetAddress xdr_model [] = Inl (New ''invalid address'')
   \<and> fst (handleInflation xdr_model (SetOptions_zero\<lparr>Signer := \<lparr>Address = [], Weight = NewThreshold 1\<rparr>\<rparr>)) = None
   \<and> length (HomeDomain (SetOptions_zero\<lparr>Signer := \<lparr>Address = [], Weight = NewThreshold 1\<rparr>\<rparr>)) \<le> 32
   \<and> BuildXDR xdr_model (SetOptions_zero\<lparr>Signer := \<lparr>Address = [], Weight = NewThreshold 1\<rparr>\<rparr>) =
       (Return (Operation None, Some (Wrap (New ''invalid address'') ''Failed to set signer'')),
        SetOptions_zero\<lparr>Signer := \<lparr>Address = [], Weight = NewThreshold 1\<rparr>\<rparr>)"
proof -
  have a: "Address (Signer (SetOptions_zero\<lparr>Signer := \<lparr>Address = [], Weight = NewThreshold 1\<rparr>\<rparr>)) = []"
    and w: "Weight (Signer (SetOptions_zero\<lparr>Signer := \<lparr>Address = [], Weight = NewThreshold 1\<rparr>\<rparr>)) = Some 1"
    and r: "SignerKey_SetAddress xdr_model [] = Inl (New ''invalid address'')"
    by (simp_all add: model_defs)
  from empty_signer_address_with_weight_fails [OF a w r] show ?thesis
    using a w r by (simp add: model_defs)
qed

end
